theory Spec2Isabelle
  imports Main "HOL-Library.Word"
begin

section \<open>JavaScript values\<close>

text \<open>
  A JavaScript string is the sequence of its UTF-16 code units; \<open>length\<close> of the list is
  the string's \<^verbatim>\<open>.length\<close>.  String literals of the source are written \<open>js ''...''\<close>.
\<close>

type_synonym jsstring = "16 word list"

definition js :: "string \<Rightarrow> jsstring" where
  "js s = map of_char s"

text \<open>
  Truthiness, as \<^verbatim>\<open>if (v)\<close>, \<^verbatim>\<open>!v\<close> and \<^verbatim>\<open>v || d\<close> read it: the empty string is
  falsy, and so are \<^verbatim>\<open>null\<close> and \<^verbatim>\<open>undefined\<close> (both \<open>None\<close> here).
\<close>

definition truthy :: "jsstring \<Rightarrow> bool" where
  "truthy s = (s \<noteq> [])"

definition truthy_opt :: "jsstring option \<Rightarrow> bool" where
  "truthy_opt v = (case v of None \<Rightarrow> False | Some s \<Rightarrow> truthy s)"

definition or_else :: "jsstring option \<Rightarrow> jsstring \<Rightarrow> jsstring" where
  "or_else v d = (case v of None \<Rightarrow> d | Some s \<Rightarrow> if truthy s then s else d)"

text \<open>
  \<^verbatim>\<open>String.prototype.trim\<close> removes the ECMAScript WhiteSpace and LineTerminator code
  units from both ends.
\<close>

definition is_white_space :: "16 word \<Rightarrow> bool" where
  "is_white_space c =
     (c \<in> {0x0009, 0x000A, 0x000B, 0x000C, 0x000D, 0x0020, 0x00A0, 0x1680,
            0x2028, 0x2029, 0x202F, 0x205F, 0x3000, 0xFEFF}
      \<or> (0x2000 \<le> c \<and> c \<le> 0x200A))"

definition trim :: "jsstring \<Rightarrow> jsstring" where
  "trim s = rev (dropWhile is_white_space (rev (dropWhile is_white_space s)))"

section \<open>The API service layer (services/api.js)\<close>

datatype http_method = GET | POST | PUT | DELETE

datatype json =
    JNull
  | JBool bool
  | JString jsstring
  | JObject "(jsstring \<times> json) list"

text \<open>The \<^verbatim>\<open>File\<close> object a file input hands to the page.\<close>

record js_file =
  blob_name :: jsstring
  blob_bytes :: "8 word list"

datatype body =
    NoBody
  | JsonBody json
  | FormData "(jsstring \<times> js_file) list"

text \<open>
  An axios request configuration: what a call on \<^verbatim>\<open>api\<close> hands to the interceptors.
  The field \<open>verb\<close> is the configuration's \<^verbatim>\<open>method\<close>.
\<close>

record config =
  verb :: http_method
  url :: jsstring
  data :: body
  headers :: "jsstring \<rightharpoonup> jsstring"

text \<open>
  \<^verbatim>\<open>axios.create({ baseURL, headers: { 'Content-Type': 'application/json' } })\<close>: the
  instance's default header; the headers of a call's own configuration are merged over it.
\<close>

definition default_headers :: "jsstring \<rightharpoonup> jsstring" where
  "default_headers = [js ''Content-Type'' \<mapsto> js ''application/json'']"

definition api_get :: "jsstring \<Rightarrow> config" where
  "api_get u = \<lparr>verb = GET, url = u, data = NoBody, headers = default_headers\<rparr>"

definition api_delete :: "jsstring \<Rightarrow> config" where
  "api_delete u = \<lparr>verb = DELETE, url = u, data = NoBody, headers = default_headers\<rparr>"

definition api_put :: "jsstring \<Rightarrow> body \<Rightarrow> config" where
  "api_put u d = \<lparr>verb = PUT, url = u, data = d, headers = default_headers\<rparr>"

definition api_post :: "jsstring \<Rightarrow> body \<Rightarrow> (jsstring \<rightharpoonup> jsstring) \<Rightarrow> config" where
  "api_post u d hs = \<lparr>verb = POST, url = u, data = d, headers = default_headers ++ hs\<rparr>"

subsection \<open>The interceptors\<close>

text \<open>The browser state the interceptors read and write; \<open>href_assigned\<close> logs every
  assignment to \<^verbatim>\<open>window.location.href\<close>.\<close>

record browser =
  localStorage :: "jsstring \<rightharpoonup> jsstring"
  pathname :: jsstring
  href_assigned :: "jsstring list"

text \<open>
  \<^verbatim>\<open>api.interceptors.request.use((config) => { ... })\<close>: \<^verbatim>\<open>getItem\<close> gives \<^verbatim>\<open>null\<close>
  for a missing key, and \<^verbatim>\<open>if (token)\<close> is a truthiness test.
\<close>

definition request_interceptor :: "browser \<Rightarrow> config \<Rightarrow> config" where
  "request_interceptor b c =
     (case localStorage b (js ''token'') of
        None \<Rightarrow> c
      | Some token \<Rightarrow>
          if truthy token
          then c\<lparr>headers := (headers c)(js ''Authorization'' \<mapsto> js ''Bearer '' @ token)\<rparr>
          else c)"

text \<open>
  A rejected request: \<^verbatim>\<open>error.response\<close> is missing (\<open>None\<close>) when no response arrived;
  otherwise it carries the status and the server's \<^verbatim>\<open>data.detail\<close>.
\<close>

record response =
  status :: nat
  detail :: "jsstring option"

record api_error =
  err_response :: "response option"

definition error_status :: "api_error \<Rightarrow> nat option" where
  "error_status e = map_option status (err_response e)"

definition error_detail :: "api_error \<Rightarrow> jsstring option" where
  "error_detail e = Option.bind (err_response e) detail"

text \<open>The two handlers of \<^verbatim>\<open>api.interceptors.response.use\<close>.\<close>

definition on_fulfilled :: "response \<Rightarrow> browser \<Rightarrow> browser" where
  "on_fulfilled r b = b"

definition on_rejected :: "api_error \<Rightarrow> browser \<Rightarrow> browser" where
  "on_rejected e b =
     (if error_status e = Some 401
      then let b1 = b\<lparr>localStorage := (localStorage b)(js ''token'' := None)\<rparr>
           in if pathname b1 \<noteq> js ''/login''
              then b1\<lparr>href_assigned := href_assigned b1 @ [js ''/login'']\<rparr>
              else b1
      else b)"

text \<open>
  The instance is created without \<^verbatim>\<open>validateStatus\<close>, so axios's default decides which
  handler a response reaches: a status from 200 to 299 fulfils, every other one rejects.
\<close>

definition validateStatus :: "nat \<Rightarrow> bool" where
  "validateStatus s = (200 \<le> s \<and> s < 300)"

definition response_interceptor :: "response \<Rightarrow> browser \<Rightarrow> browser" where
  "response_interceptor r b =
     (if validateStatus (status r) then on_fulfilled r b
      else on_rejected \<lparr>err_response = Some r\<rparr> b)"

subsection \<open>The API functions\<close>

definition nullable :: "jsstring option \<Rightarrow> json" where
  "nullable v = (case v of None \<Rightarrow> JNull | Some s \<Rightarrow> JString s)"

definition projectAPI_get :: "jsstring \<Rightarrow> config" where
  "projectAPI_get pid = api_get (js ''/projects/'' @ pid)"

definition projectAPI_delete :: "jsstring \<Rightarrow> config" where
  "projectAPI_delete pid = api_delete (js ''/projects/'' @ pid)"

definition promptAPI_update :: "jsstring \<Rightarrow> json \<Rightarrow> config" where
  "promptAPI_update promptId d = api_put (js ''/projects/prompts/'' @ promptId) (JsonBody d)"

definition chatAPI_sendMessage :: "jsstring \<Rightarrow> jsstring \<Rightarrow> jsstring option \<Rightarrow> config" where
  "chatAPI_sendMessage projectId message sessionId =
     api_post (js ''/projects/'' @ projectId @ js ''/chat'')
       (JsonBody (JObject [(js ''message'', JString message),
                           (js ''session_id'', nullable sessionId)]))
       Map.empty"

definition chatAPI_listSessions :: "jsstring \<Rightarrow> config" where
  "chatAPI_listSessions projectId = api_get (js ''/projects/'' @ projectId @ js ''/sessions'')"

definition chatAPI_getSession :: "jsstring \<Rightarrow> jsstring \<Rightarrow> config" where
  "chatAPI_getSession projectId sessionId =
     api_get (js ''/projects/'' @ projectId @ js ''/sessions/'' @ sessionId)"

definition fileAPI_upload :: "jsstring \<Rightarrow> js_file \<Rightarrow> config" where
  "fileAPI_upload projectId file =
     api_post (js ''/projects/'' @ projectId @ js ''/files'')
       (FormData [(js ''file'', file)])
       [js ''Content-Type'' \<mapsto> js ''multipart/form-data'']"

section \<open>What a handler does to the world\<close>

text \<open>
  A handler of a page is a function from the component state its closure holds, and from
  the outcome of each call it awaits, to the state after its last update and the trace of
  its effects, in order.  An awaited call either resolves (\<open>Inr\<close> the response's data) or
  rejects (\<open>Inl\<close> the error); a handler whose awaited call never settles stays
  suspended and is no run of this model.  One handler runs at a time: no other update
  of the component interleaves with it, so the state a closure holds and the state an
  updater function receives are the same.
\<close>

datatype effect =
    PreventDefault
  | StopPropagation
  | Confirm jsstring bool
  | Alert jsstring
  | ConsoleError jsstring
  | Api config
  | Navigate jsstring bool
  | CallRegister jsstring jsstring jsstring
  | FocusInput
  | ResetFileInput

definition is_api :: "effect \<Rightarrow> bool" where
  "is_api e = (case e of Api c \<Rightarrow> True | _ \<Rightarrow> False)"

section \<open>The data the pages hold\<close>

text \<open>
  The objects the server returns, with the fields the pages read.  The key
  \<^verbatim>\<open>_id\<close> of an object is the field \<open>project_id\<close>, \<open>prompt_id\<close>, \<open>file_id\<close> or
  \<open>sess_id\<close> of its record.
\<close>

record project =
  project_id :: jsstring
  project_name :: jsstring
  description :: "jsstring option"
  system_prompt :: jsstring
  project_created_at :: jsstring

record prompt =
  prompt_id :: jsstring
  prompt_project_id :: jsstring
  prompt_name :: jsstring
  prompt_content :: jsstring
  is_active :: bool
  prompt_created_at :: jsstring

record file_record =
  file_id :: jsstring
  filename :: jsstring
  size_bytes :: nat
  provider_file_id :: jsstring

record session =
  sess_id :: jsstring
  last_message :: "jsstring option"
  message_count :: nat
  sess_created_at :: jsstring

record chat_message =
  role :: jsstring
  content :: jsstring
  timestamp :: jsstring

section \<open>The chat page (pages/Chat.jsx)\<close>

text \<open>The data of a successful \<^verbatim>\<open>chatAPI.sendMessage\<close>: \<^verbatim>\<open>{ session_id, message }\<close>.\<close>

record send_response =
  session_id :: jsstring
  message :: chat_message

text \<open>The component's state variables, one field for each \<^verbatim>\<open>useState\<close>.\<close>

record chat_state =
  project :: "project option"
  sessions :: "session list"
  currentSessionId :: "jsstring option"
  messages :: "chat_message list"
  inputValue :: jsstring
  loading :: bool
  sending :: bool
  showSidebar :: bool

text \<open>
  What the world answers during one \<^verbatim>\<open>handleSendMessage\<close>: the clock read by
  \<^verbatim>\<open>new Date().toISOString()\<close>, the outcome of the send, and the outcome of the refresh
  of the sessions list (read only when the handler reaches that call).
\<close>

record send_env =
  now :: jsstring
  send_result :: "api_error + send_response"
  sessions_result :: "api_error + session list"

text \<open>The \<^verbatim>\<open>finally\<close> block of \<^verbatim>\<open>handleSendMessage\<close>.\<close>

definition send_finally :: "chat_state \<Rightarrow> effect list \<Rightarrow> chat_state \<times> effect list" where
  "send_finally st effs = (st\<lparr>sending := False\<rparr>, effs @ [FocusInput])"

text \<open>Its \<^verbatim>\<open>catch\<close> block: \<^verbatim>\<open>prev.slice(0, -1)\<close> drops the last message.\<close>

definition send_catch :: "api_error \<Rightarrow> chat_state \<Rightarrow> effect list \<Rightarrow> chat_state \<times> effect list" where
  "send_catch err st effs =
     send_finally (st\<lparr>messages := butlast (messages st)\<rparr>)
       (effs @ [ConsoleError (js ''Failed to send message:''),
                Alert (or_else (error_detail err)
                         (js ''Failed to send message. Please try again.''))])"

definition chat_route :: "jsstring \<Rightarrow> jsstring \<Rightarrow> jsstring" where
  "chat_route projectId sid = js ''/project/'' @ projectId @ js ''/chat/'' @ sid"

definition handleSendMessage ::
    "jsstring \<Rightarrow> send_env \<Rightarrow> chat_state \<Rightarrow> chat_state \<times> effect list" where
  "handleSendMessage projectId env st =
     (if \<not> truthy (trim (inputValue st)) \<or> sending st then (st, [PreventDefault])
      else
        let msg = trim (inputValue st);
            userMessage = \<lparr>role = js ''user'', content = msg, timestamp = now env\<rparr>;
            st1 = st\<lparr>inputValue := [], sending := True,
                     messages := messages st @ [userMessage]\<rparr>;
            effs = [PreventDefault,
                    Api (chatAPI_sendMessage projectId msg (currentSessionId st))]
        in case send_result env of
             Inl err \<Rightarrow> send_catch err st1 effs
           | Inr response \<Rightarrow>
               if \<not> truthy_opt (currentSessionId st)
               then
                 let st2 = st1\<lparr>currentSessionId := Some (session_id response)\<rparr>;
                     effs2 = effs @ [Navigate (chat_route projectId (session_id response)) True,
                                     Api (chatAPI_listSessions projectId)]
                 in case sessions_result env of
                      Inl err \<Rightarrow> send_catch err st2 effs2
                    | Inr sessionsRes \<Rightarrow>
                        send_finally
                          (st2\<lparr>sessions := sessionsRes,
                               messages := messages st2 @ [message response]\<rparr>)
                          effs2
               else
                 send_finally (st1\<lparr>messages := messages st1 @ [message response]\<rparr>) effs)"

text \<open>
  \<^verbatim>\<open>fetchSession\<close>: the data of \<^verbatim>\<open>chatAPI.getSession\<close> may lack \<^verbatim>\<open>messages\<close>
  (\<^verbatim>\<open>response.data.messages || []\<close>).
\<close>

definition fetchSession ::
    "jsstring \<Rightarrow> jsstring \<Rightarrow> api_error + chat_message list option \<Rightarrow> chat_state
       \<Rightarrow> chat_state \<times> effect list" where
  "fetchSession projectId sid result st =
     (case result of
        Inr response_messages \<Rightarrow>
          (st\<lparr>messages := (case response_messages of None \<Rightarrow> [] | Some ms \<Rightarrow> ms)\<rparr>,
           [Api (chatAPI_getSession projectId sid)])
      | Inl err \<Rightarrow>
          (st\<lparr>messages := []\<rparr>,
           [Api (chatAPI_getSession projectId sid),
            ConsoleError (js ''Failed to fetch session:'')]))"

definition handleSelectSession ::
    "jsstring \<Rightarrow> jsstring \<Rightarrow> api_error + chat_message list option \<Rightarrow> chat_state
       \<Rightarrow> chat_state \<times> effect list" where
  "handleSelectSession projectId sid result st =
     (if Some sid = currentSessionId st then (st, [])
      else
        let st1 = st\<lparr>currentSessionId := Some sid\<rparr>;
            fetched = fetchSession projectId sid result st1
        in (fst fetched, Navigate (chat_route projectId sid) False # snd fetched))"

section \<open>The project page (ProjectDetail)\<close>

record edit_form =
  form_name :: jsstring
  form_description :: jsstring
  form_system_prompt :: jsstring

record new_prompt =
  new_prompt_name :: jsstring
  new_prompt_content :: jsstring

record detail_state =
  detail_project :: "project option"
  prompts :: "prompt list"
  files :: "file_record list"
  detail_sessions :: "session list"
  detail_loading :: bool
  activeTab :: jsstring
  editing :: bool
  editForm :: edit_form
  saving :: bool
  showPromptModal :: bool
  newPrompt :: new_prompt
  creatingPrompt :: bool
  uploading :: bool

text \<open>The payload of a toggle: the object literal \<^verbatim>\<open>{ is_active: !prompt.is_active }\<close>.\<close>

definition toggle_payload :: "prompt \<Rightarrow> json" where
  "toggle_payload p = JObject [(js ''is_active'', JBool (\<not> is_active p))]"

definition handleTogglePrompt ::
    "prompt \<Rightarrow> api_error + prompt \<Rightarrow> detail_state \<Rightarrow> detail_state \<times> effect list" where
  "handleTogglePrompt p result st =
     (case result of
        Inr response_data \<Rightarrow>
          (st\<lparr>prompts :=
                map (\<lambda>q. if prompt_id q = prompt_id p then q\<lparr>is_active := \<not> is_active q\<rparr> else q)
                  (prompts st)\<rparr>,
           [Api (promptAPI_update (prompt_id p) (toggle_payload p))])
      | Inl err \<Rightarrow>
          (st, [Api (promptAPI_update (prompt_id p) (toggle_payload p)),
                ConsoleError (js ''Failed to toggle prompt:'')]))"

text \<open>
  The change event of the file input: \<^verbatim>\<open>e.target.files\<close> may be missing, and
  \<^verbatim>\<open>files?.[0]\<close> of an empty list is \<^verbatim>\<open>undefined\<close>.
\<close>

definition first_file :: "js_file list option \<Rightarrow> js_file option" where
  "first_file fs = (case fs of None \<Rightarrow> None | Some [] \<Rightarrow> None | Some (f # rest) \<Rightarrow> Some f)"

text \<open>\<open>mounted\<close>: whether \<^verbatim>\<open>fileInputRef.current\<close> is set when the handler ends.\<close>

definition handleFileUpload ::
    "jsstring \<Rightarrow> js_file list option \<Rightarrow> api_error + file_record \<Rightarrow> bool \<Rightarrow> detail_state
       \<Rightarrow> detail_state \<times> effect list" where
  "handleFileUpload projectId target_files result mounted st =
     (case first_file target_files of
        None \<Rightarrow> (st, [])
      | Some file \<Rightarrow>
          let st1 = st\<lparr>uploading := True\<rparr>;
              reset = (if mounted then [ResetFileInput] else [])
          in (case result of
                Inr response_data \<Rightarrow>
                  (st1\<lparr>files := response_data # files st, uploading := False\<rparr>,
                   [Api (fileAPI_upload projectId file)] @ reset)
              | Inl err \<Rightarrow>
                  (st1\<lparr>uploading := False\<rparr>,
                   [Api (fileAPI_upload projectId file),
                    ConsoleError (js ''Failed to upload file:''),
                    Alert (or_else (error_detail err) (js ''File upload failed''))] @ reset)))"

section \<open>The dashboard (Dashboard)\<close>

record new_project =
  new_project_name :: jsstring
  new_project_description :: jsstring
  new_project_system_prompt :: jsstring

record dashboard_state =
  projects :: "project list"
  dashboard_loading :: bool
  showModal :: bool
  newProject :: new_project
  creating :: bool
  dashboard_error :: jsstring

definition delete_project_question :: jsstring where
  "delete_project_question =
     js ''Are you sure you want to delete this project? All associated data will be lost.''"

text \<open>\<open>answer\<close>: what the user answers to \<^verbatim>\<open>confirm(...)\<close>.\<close>

definition handleDeleteProject ::
    "jsstring \<Rightarrow> bool \<Rightarrow> api_error + unit \<Rightarrow> dashboard_state
       \<Rightarrow> dashboard_state \<times> effect list" where
  "handleDeleteProject projectId answer result st =
     (let effs = [PreventDefault, StopPropagation, Confirm delete_project_question answer]
      in if \<not> answer then (st, effs)
         else case result of
                Inr response_data \<Rightarrow>
                  (st\<lparr>projects := filter (\<lambda>p. project_id p \<noteq> projectId) (projects st)\<rparr>,
                   effs @ [Api (projectAPI_delete projectId)])
              | Inl err \<Rightarrow>
                  (st, effs @ [Api (projectAPI_delete projectId),
                               ConsoleError (js ''Failed to delete project:'')]))"

text \<open>\<^verbatim>\<open>String.prototype.includes\<close>, as a predicate.\<close>

definition js_includes :: "jsstring \<Rightarrow> jsstring \<Rightarrow> bool" where
  "js_includes text part = (\<exists>before after. text = before @ part @ after)"

section \<open>The registration page (Register)\<close>

record register_state =
  name :: jsstring
  email :: jsstring
  password :: jsstring
  confirmPassword :: jsstring
  error :: jsstring
  register_loading :: bool

text \<open>
  \<^verbatim>\<open>register\<close> comes from the authentication context; the handler's call of it is the
  effect \<open>CallRegister\<close>, and \<open>result\<close> is how that call settles.
\<close>

definition handleSubmit ::
    "api_error + unit \<Rightarrow> register_state \<Rightarrow> register_state \<times> effect list" where
  "handleSubmit result st =
     (let st1 = st\<lparr>error := []\<rparr>
      in if password st \<noteq> confirmPassword st
         then (st1\<lparr>error := js ''Passwords do not match''\<rparr>, [PreventDefault])
         else if length (password st) < 6
         then (st1\<lparr>error := js ''Password must be at least 6 characters''\<rparr>, [PreventDefault])
         else
           let st2 = st1\<lparr>register_loading := True\<rparr>;
               call = CallRegister (email st) (password st) (name st)
           in case result of
                Inr done \<Rightarrow>
                  (st2\<lparr>register_loading := False\<rparr>,
                   [PreventDefault, call, Navigate (js ''/dashboard'') False])
              | Inl err \<Rightarrow>
                  (st2\<lparr>error := or_else (error_detail err)
                                   (js ''Registration failed. Please try again.''),
                        register_loading := False\<rparr>,
                   [PreventDefault, call]))"

section \<open>The routes (App.jsx)\<close>

record account =
  account_email :: jsstring
  account_name :: jsstring

text \<open>What \<^verbatim>\<open>useAuth()\<close> gives a route guard.\<close>

record auth =
  user :: "account option"
  auth_loading :: bool

datatype page = Login | Register | Dashboard | ProjectDetail | Chat

datatype element =
    LoadingDots
  | NavigateTo jsstring
  | Page page

definition ProtectedRoute :: "auth \<Rightarrow> element \<Rightarrow> element" where
  "ProtectedRoute a children =
     (if auth_loading a then LoadingDots
      else if user a = None then NavigateTo (js ''/login'')
      else children)"

definition PublicRoute :: "auth \<Rightarrow> element \<Rightarrow> element" where
  "PublicRoute a children =
     (if auth_loading a then LoadingDots
      else if user a \<noteq> None then NavigateTo (js ''/dashboard'')
      else children)"

text \<open>The eight \<^verbatim>\<open>Route\<close> entries of \<^verbatim>\<open>App\<close>, in the source's order, with their paths.\<close>

datatype route =
    R_login
  | R_register
  | R_dashboard
  | R_project
  | R_project_chat
  | R_project_chat_session
  | R_root
  | R_any

fun route_path :: "route \<Rightarrow> jsstring" where
  "route_path R_login = js ''/login''"
| "route_path R_register = js ''/register''"
| "route_path R_dashboard = js ''/dashboard''"
| "route_path R_project = js ''/project/:projectId''"
| "route_path R_project_chat = js ''/project/:projectId/chat''"
| "route_path R_project_chat_session = js ''/project/:projectId/chat/:sessionId''"
| "route_path R_root = js ''/''"
| "route_path R_any = js ''*''"

text \<open>The element \<^verbatim>\<open>App\<close> renders for the route that matched.\<close>

fun App :: "auth \<Rightarrow> route \<Rightarrow> element" where
  "App a R_login = PublicRoute a (Page Login)"
| "App a R_register = PublicRoute a (Page Register)"
| "App a R_dashboard = ProtectedRoute a (Page Dashboard)"
| "App a R_project = ProtectedRoute a (Page ProjectDetail)"
| "App a R_project_chat = ProtectedRoute a (Page Chat)"
| "App a R_project_chat_session = ProtectedRoute a (Page Chat)"
| "App a R_root = NavigateTo (js ''/dashboard'')"
| "App a R_any = NavigateTo (js ''/dashboard'')"

section \<open>Concrete inputs\<close>

definition example_error :: api_error where
  "example_error =
     \<lparr>err_response = Some \<lparr>status = 502, detail = Some (js ''Upstream failure'')\<rparr>\<rparr>"

definition unauthorized :: response where
  "unauthorized = \<lparr>status = 401, detail = Some (js ''Could not validate credentials'')\<rparr>"

definition token_browser :: browser where
  "token_browser =
     \<lparr>localStorage = [js ''token'' \<mapsto> js ''abc''], pathname = js ''/dashboard'',
      href_assigned = []\<rparr>"

definition empty_token_browser :: browser where
  "empty_token_browser =
     \<lparr>localStorage = [js ''token'' \<mapsto> []], pathname = js ''/dashboard'',
      href_assigned = []\<rparr>"

definition example_reply :: send_response where
  "example_reply =
     \<lparr>session_id = js ''s1'',
      message = \<lparr>role = js ''assistant'', content = js ''Bonjour'', timestamp = js ''t1''\<rparr>\<rparr>"

definition example_chat :: chat_state where
  "example_chat =
     \<lparr>project = None, sessions = [], currentSessionId = Some (js ''s1''),
      messages = [\<lparr>role = js ''user'', content = js ''Hi'', timestamp = js ''t''\<rparr>],
      inputValue = js '' Hello '', loading = False, sending = False, showSidebar = True\<rparr>"

definition new_chat :: chat_state where
  "new_chat =
     \<lparr>project = None, sessions = [], currentSessionId = None, messages = [],
      inputValue = js ''Hello'', loading = False, sending = False, showSidebar = True\<rparr>"

definition blank_chat :: chat_state where
  "blank_chat = example_chat\<lparr>inputValue := js ''   ''\<rparr>"

definition busy_chat :: chat_state where
  "busy_chat = example_chat\<lparr>sending := True\<rparr>"

definition send_succeeds :: send_env where
  "send_succeeds =
     \<lparr>now = js ''t0'', send_result = Inr example_reply, sessions_result = Inr []\<rparr>"

definition send_fails :: send_env where
  "send_fails =
     \<lparr>now = js ''t0'', send_result = Inl example_error, sessions_result = Inr []\<rparr>"

definition refresh_fails :: send_env where
  "refresh_fails =
     \<lparr>now = js ''t0'', send_result = Inr example_reply, sessions_result = Inl example_error\<rparr>"

definition greet_prompt :: prompt where
  "greet_prompt =
     \<lparr>prompt_id = js ''q1'', prompt_project_id = js ''p1'', prompt_name = js ''French'',
      prompt_content = js ''Reply in French.'', is_active = True,
      prompt_created_at = js ''t''\<rparr>"

definition brief_prompt :: prompt where
  "brief_prompt =
     \<lparr>prompt_id = js ''q2'', prompt_project_id = js ''p1'', prompt_name = js ''Brief'',
      prompt_content = js ''Be brief.'', is_active = False,
      prompt_created_at = js ''t''\<rparr>"

definition example_detail :: detail_state where
  "example_detail =
     \<lparr>detail_project = None, prompts = [greet_prompt, brief_prompt], files = [],
      detail_sessions = [], detail_loading = False, activeTab = js ''prompts'',
      editing = False,
      editForm = \<lparr>form_name = [], form_description = [], form_system_prompt = []\<rparr>,
      saving = False, showPromptModal = False,
      newPrompt = \<lparr>new_prompt_name = [], new_prompt_content = []\<rparr>,
      creatingPrompt = False, uploading = False\<rparr>"

definition notes_file :: js_file where
  "notes_file = \<lparr>blob_name = js ''notes.txt'', blob_bytes = [104, 105]\<rparr>"

definition notes_record :: file_record where
  "notes_record =
     \<lparr>file_id = js ''f1'', filename = js ''notes.txt'', size_bytes = 2,
      provider_file_id = js ''file-1''\<rparr>"

definition bot_project :: project where
  "bot_project =
     \<lparr>project_id = js ''p1'', project_name = js ''Bot'', description = None,
      system_prompt = js ''You are a helpful AI assistant.'',
      project_created_at = js ''t''\<rparr>"

definition faq_project :: project where
  "faq_project =
     \<lparr>project_id = js ''p2'', project_name = js ''FAQ'', description = None,
      system_prompt = js ''Answer briefly.'', project_created_at = js ''t''\<rparr>"

definition example_dashboard :: dashboard_state where
  "example_dashboard =
     \<lparr>projects = [bot_project, faq_project], dashboard_loading = False, showModal = False,
      newProject = \<lparr>new_project_name = [], new_project_description = [],
                     new_project_system_prompt = []\<rparr>,
      creating = False, dashboard_error = []\<rparr>"

definition short_form :: register_state where
  "short_form =
     \<lparr>name = js ''Ann'', email = js ''ann@example.org'', password = js ''abc'',
      confirmPassword = js ''abc'', error = [], register_loading = False\<rparr>"

definition mismatch_form :: register_state where
  "mismatch_form = short_form\<lparr>password := js ''secret1'', confirmPassword := js ''secret2''\<rparr>"

definition good_form :: register_state where
  "good_form = short_form\<lparr>password := js ''secret1'', confirmPassword := js ''secret1''\<rparr>"

definition ann :: account where
  "ann = \<lparr>account_email = js ''ann@example.org'', account_name = js ''Ann''\<rparr>"

section \<open>Facts about literals\<close>

lemma Hello_nonempty: "js ''Hello'' \<noteq> []"
  by (simp add: js_def)

lemma trim_padded_Hello: "trim (js '' Hello '') = js ''Hello''"
  by (simp add: trim_def js_def is_white_space_def)

lemma trim_Hello: "trim (js ''Hello'') = js ''Hello''"
  by (simp add: trim_def js_def is_white_space_def)

lemma trim_blank: "trim (js ''   '') = []"
  by (simp add: trim_def js_def is_white_space_def)

section \<open>Sending a chat message\<close>

lemma send_catch_messages:
  "messages (fst (send_catch err st effs)) = butlast (messages st)"
  by (simp add: send_catch_def send_finally_def)

lemma send_finally_messages:
  "messages (fst (send_finally st effs)) = messages st"
  by (simp add: send_finally_def)

text \<open>
  C1 (as amended).  A submission with non-blank input, no send in flight and a current
  session id (one that \<^verbatim>\<open>!currentSessionId\<close> reads as present) leaves the page's
  message list longer by exactly two when the send succeeds: the user message, then
  \<^verbatim>\<open>response.data.message\<close>.  When the send fails the list is the one before the
  submission: the user message appended optimistically is removed again by the
  \<^verbatim>\<open>catch\<close> block, so the list grows by none, not by one.
\<close>

theorem send_message_growth:
  assumes "truthy (trim (inputValue st))" and "\<not> sending st"
    and "truthy_opt (currentSessionId st)"
  shows "messages (fst (handleSendMessage pid env st)) =
           (case send_result env of
              Inr response \<Rightarrow>
                messages st @
                  [\<lparr>role = js ''user'', content = trim (inputValue st), timestamp = now env\<rparr>,
                   message response]
            | Inl err \<Rightarrow> messages st)
         \<and> length (messages (fst (handleSendMessage pid env st))) =
             length (messages st) + (case send_result env of Inr response \<Rightarrow> 2 | Inl err \<Rightarrow> 0)"
  using assms
  by (simp add: handleSendMessage_def Let_def send_catch_messages send_finally_messages
        split: sum.splits)

theorem send_message_growth_witness:
  "truthy (trim (inputValue example_chat)) \<and> \<not> sending example_chat
   \<and> truthy_opt (currentSessionId example_chat)
   \<and> messages (fst (handleSendMessage (js ''p1'') send_succeeds example_chat)) =
       messages example_chat @
         [\<lparr>role = js ''user'', content = js ''Hello'', timestamp = js ''t0''\<rparr>,
          message example_reply]
   \<and> messages (fst (handleSendMessage (js ''p1'') send_fails example_chat)) =
       messages example_chat"
proof -
  have i: "inputValue example_chat = js '' Hello ''"
    by (simp add: example_chat_def)
  have a: "truthy (trim (inputValue example_chat))"
    by (simp add: i trim_padded_Hello truthy_def Hello_nonempty)
  have b: "\<not> sending example_chat"
    by (simp add: example_chat_def)
  have c: "truthy_opt (currentSessionId example_chat)"
    by (simp add: example_chat_def truthy_opt_def truthy_def js_def)
  show ?thesis
    using a b c send_message_growth [OF a b c, of "js ''p1''" send_succeeds]
      send_message_growth [OF a b c, of "js ''p1''" send_fails]
    by (simp add: send_succeeds_def send_fails_def i trim_padded_Hello)
qed

theorem send_failure_counterexample:
  "trim (inputValue example_chat) \<noteq> [] \<and> sending example_chat = False
   \<and> currentSessionId example_chat = Some (js ''s1'')
   \<and> send_result send_fails = Inl example_error
   \<and> length (messages (fst (handleSendMessage (js ''p1'') send_fails example_chat)))
       \<noteq> length (messages example_chat) + 1
   \<and> messages (fst (handleSendMessage (js ''p1'') send_fails example_chat))
       = messages example_chat"
proof -
  have i: "inputValue example_chat = js '' Hello ''"
    by (simp add: example_chat_def)
  have m: "messages (fst (handleSendMessage (js ''p1'') send_fails example_chat))
       = messages example_chat"
    by (simp add: handleSendMessage_def Let_def i trim_padded_Hello truthy_def Hello_nonempty
          send_catch_messages send_fails_def example_chat_def)
  show ?thesis
    by (simp add: m i trim_padded_Hello Hello_nonempty)
       (simp add: example_chat_def send_fails_def)
qed

section \<open>The interceptors\<close>

lemma request_interceptor_token:
  "localStorage b (js ''token'') = Some t \<Longrightarrow> t \<noteq> [] \<Longrightarrow>
     request_interceptor b c =
       c\<lparr>headers := (headers c)(js ''Authorization'' \<mapsto> js ''Bearer '' @ t)\<rparr>"
  by (simp add: request_interceptor_def truthy_def)

lemma request_interceptor_no_token:
  "localStorage b (js ''token'') = None \<or> localStorage b (js ''token'') = Some [] \<Longrightarrow>
     request_interceptor b c = c"
  by (auto simp: request_interceptor_def truthy_def)

lemma not_valid_401: "\<not> validateStatus 401"
  by (simp add: validateStatus_def)

lemma response_interceptor_401:
  "status r = 401 \<Longrightarrow>
     response_interceptor r b =
       b\<lparr>localStorage := (localStorage b)(js ''token'' := None),
          href_assigned :=
            (if pathname b = js ''/login'' then href_assigned b
             else href_assigned b @ [js ''/login''])\<rparr>"
  by (simp add: response_interceptor_def not_valid_401 on_rejected_def error_status_def Let_def)

lemma response_interceptor_other:
  "status r \<noteq> 401 \<Longrightarrow> response_interceptor r b = b"
  by (simp add: response_interceptor_def on_fulfilled_def on_rejected_def error_status_def)

lemma on_rejected_no_response:
  "on_rejected \<lparr>err_response = None\<rparr> b = b"
  by (simp add: on_rejected_def error_status_def)

text \<open>
  C2 (as amended).  The request interceptor sets the Authorization header to
  \<open>Bearer\<close>, a space and the stored token when the value stored under \<open>token\<close> is a
  non-empty string, and returns the configuration as it came when nothing is stored
  there or the stored string is empty.  A response with status 401 removes the stored
  token and assigns \<open>/login\<close> to the location unless the path is \<open>/login\<close> already; a
  response with any other status, and an error with no response, leave the browser
  state as it was.
\<close>

theorem interceptors_token:
  "(\<forall>t. localStorage b (js ''token'') = Some t \<and> t \<noteq> [] \<longrightarrow>
        request_interceptor b c =
          c\<lparr>headers := (headers c)(js ''Authorization'' \<mapsto> js ''Bearer '' @ t)\<rparr>)
   \<and> (localStorage b (js ''token'') = None \<or> localStorage b (js ''token'') = Some [] \<longrightarrow>
        request_interceptor b c = c)
   \<and> (status r = 401 \<longrightarrow>
        localStorage (response_interceptor r b) = (localStorage b)(js ''token'' := None)
        \<and> pathname (response_interceptor r b) = pathname b
        \<and> href_assigned (response_interceptor r b) =
            (if pathname b = js ''/login'' then href_assigned b
             else href_assigned b @ [js ''/login'']))
   \<and> (status r \<noteq> 401 \<longrightarrow> response_interceptor r b = b)
   \<and> on_rejected \<lparr>err_response = None\<rparr> b = b"
  using request_interceptor_token [of b _ c] request_interceptor_no_token [of b c]
    response_interceptor_401 [of r b] response_interceptor_other [of r b]
  by (simp add: on_rejected_no_response)

theorem interceptors_token_witness:
  "localStorage token_browser (js ''token'') = Some (js ''abc'') \<and> js ''abc'' \<noteq> []
   \<and> headers (request_interceptor token_browser (projectAPI_get (js ''p1'')))
        (js ''Authorization'') = Some (js ''Bearer abc'')
   \<and> status unauthorized = 401
   \<and> localStorage (response_interceptor unauthorized token_browser) (js ''token'') = None
   \<and> href_assigned (response_interceptor unauthorized token_browser) = [js ''/login'']
   \<and> status \<lparr>status = 502, detail = None\<rparr> \<noteq> 401
   \<and> response_interceptor \<lparr>status = 502, detail = None\<rparr> token_browser = token_browser"
proof -
  have t: "localStorage token_browser (js ''token'') = Some (js ''abc'')"
    by (simp add: token_browser_def)
  have n: "js ''abc'' \<noteq> []"
    by (simp add: js_def)
  have p: "pathname token_browser \<noteq> js ''/login''"
    by (simp add: token_browser_def js_def)
  have h: "href_assigned token_browser = []"
    by (simp add: token_browser_def)
  have u: "status unauthorized = 401"
    by (simp add: unauthorized_def)
  have cat: "js ''Bearer '' @ js ''abc'' = js ''Bearer abc''"
    by (simp add: js_def)
  from interceptors_token [of token_browser "projectAPI_get (js ''p1'')" unauthorized]
  have 1: "headers (request_interceptor token_browser (projectAPI_get (js ''p1'')))
        (js ''Authorization'') = Some (js ''Bearer abc'')"
    and 2: "localStorage (response_interceptor unauthorized token_browser) (js ''token'') = None"
    and 3: "href_assigned (response_interceptor unauthorized token_browser) = [js ''/login'']"
    using t n p h u by (simp_all add: cat)
  from interceptors_token
    [of token_browser "projectAPI_get (js ''p1'')" "\<lparr>status = 502, detail = None\<rparr>"]
  have 4: "response_interceptor \<lparr>status = 502, detail = None\<rparr> token_browser = token_browser"
    by simp
  show ?thesis
    using t n u 1 2 3 4 by simp
qed

theorem empty_token_counterexample:
  "localStorage empty_token_browser (js ''token'') = Some []
   \<and> headers (projectAPI_get (js ''p1'')) (js ''Authorization'') = None
   \<and> headers (request_interceptor empty_token_browser (projectAPI_get (js ''p1'')))
        (js ''Authorization'') = None
   \<and> headers (request_interceptor empty_token_browser (projectAPI_get (js ''p1'')))
        (js ''Authorization'') \<noteq> Some (js ''Bearer '' @ [])"
  by (simp add: empty_token_browser_def request_interceptor_def truthy_def projectAPI_get_def
        api_get_def default_headers_def js_def)

section \<open>The first message of a new session\<close>

lemma new_session_adopted:
  assumes "truthy (trim (inputValue st))" and "\<not> sending st"
    and "\<not> truthy_opt (currentSessionId st)"
    and "send_result env = Inr response" and "sessions_result env = Inr ss"
  shows "currentSessionId (fst (handleSendMessage pid env st)) = Some (session_id response)
         \<and> messages (fst (handleSendMessage pid env st)) =
             messages st @
               [\<lparr>role = js ''user'', content = trim (inputValue st), timestamp = now env\<rparr>,
                message response]
         \<and> Navigate (chat_route pid (session_id response)) True
             \<in> set (snd (handleSendMessage pid env st))"
  using assms
  by (simp add: handleSendMessage_def Let_def send_finally_def)

lemma session_kept:
  assumes "truthy (trim (inputValue st))" and "\<not> sending st"
    and "truthy_opt (currentSessionId st)"
  shows "currentSessionId (fst (handleSendMessage pid env st)) = currentSessionId st"
  using assms
  by (simp add: handleSendMessage_def Let_def send_finally_def send_catch_def
        split: sum.splits)

text \<open>
  C3 (the code at the failing input).  With no current session id, a send that
  succeeds and a refresh of the sessions list that fails: the page adopts the returned
  session id and navigates to its route, then the \<^verbatim>\<open>catch\<close> block runs, so the returned
  assistant message is never appended, the user message is removed, and the user is
  told that the send failed.
\<close>

theorem refresh_failure_drops_reply:
  "currentSessionId new_chat = None
   \<and> send_result refresh_fails = Inr example_reply
   \<and> sessions_result refresh_fails = Inl example_error
   \<and> currentSessionId (fst (handleSendMessage (js ''p1'') refresh_fails new_chat))
        = Some (session_id example_reply)
   \<and> Navigate (chat_route (js ''p1'') (session_id example_reply)) True
        \<in> set (snd (handleSendMessage (js ''p1'') refresh_fails new_chat))
   \<and> messages (fst (handleSendMessage (js ''p1'') refresh_fails new_chat)) = []
   \<and> Alert (js ''Upstream failure'')
        \<in> set (snd (handleSendMessage (js ''p1'') refresh_fails new_chat))"
proof -
  have i: "inputValue new_chat = js ''Hello''" and s: "\<not> sending new_chat"
    and c: "currentSessionId new_chat = None" and m: "messages new_chat = []"
    by (simp_all add: new_chat_def)
  have r: "send_result refresh_fails = Inr example_reply"
    and l: "sessions_result refresh_fails = Inl example_error"
    by (simp_all add: refresh_fails_def)
  have d: "or_else (error_detail example_error) (js ''Failed to send message. Please try again.'')
      = js ''Upstream failure''"
    by (simp add: or_else_def error_detail_def example_error_def truthy_def js_def)
  show ?thesis
    by (simp add: handleSendMessage_def Let_def i s c m r l trim_Hello truthy_def
          truthy_opt_def Hello_nonempty send_catch_def send_finally_def d)
qed

theorem refresh_failure_drops_reply_witness:
  "message example_reply
     \<notin> set (messages (fst (handleSendMessage (js ''p1'') refresh_fails new_chat)))
   \<and> currentSessionId (fst (handleSendMessage (js ''p1'') refresh_fails new_chat))
       = Some (js ''s1'')"
  using refresh_failure_drops_reply by (simp add: example_reply_def)

section \<open>The guard of the chat form\<close>

text \<open>
  C5.  When the trimmed input is empty, or a send is in flight, submitting the form
  returns the state as it was (so the message list and the current session id are
  unchanged) and its only effect is \<^verbatim>\<open>preventDefault\<close>: no request.  A run whose trace
  holds a request had non-empty trimmed input and no send in flight.
\<close>

theorem send_guard:
  "(trim (inputValue st) = [] \<or> sending st \<longrightarrow>
      handleSendMessage pid env st = (st, [PreventDefault]))
   \<and> ((\<exists>c. Api c \<in> set (snd (handleSendMessage pid env st))) \<longrightarrow>
      trim (inputValue st) \<noteq> [] \<and> \<not> sending st)"
  by (auto simp: handleSendMessage_def truthy_def)

theorem send_guard_witness:
  "trim (inputValue blank_chat) = []
   \<and> handleSendMessage (js ''p1'') send_succeeds blank_chat = (blank_chat, [PreventDefault])
   \<and> sending busy_chat
   \<and> handleSendMessage (js ''p1'') send_succeeds busy_chat = (busy_chat, [PreventDefault])
   \<and> Api (chatAPI_sendMessage (js ''p1'') (js ''Hello'') (Some (js ''s1'')))
        \<in> set (snd (handleSendMessage (js ''p1'') send_succeeds example_chat))
   \<and> trim (inputValue example_chat) \<noteq> [] \<and> \<not> sending example_chat"
proof -
  have b: "trim (inputValue blank_chat) = []"
    by (simp add: blank_chat_def trim_blank)
  have s: "sending busy_chat"
    by (simp add: busy_chat_def)
  have i: "inputValue example_chat = js '' Hello ''" and ns: "\<not> sending example_chat"
    and c: "currentSessionId example_chat = Some (js ''s1'')"
    by (simp_all add: example_chat_def)
  have a: "Api (chatAPI_sendMessage (js ''p1'') (js ''Hello'') (Some (js ''s1'')))
        \<in> set (snd (handleSendMessage (js ''p1'') send_succeeds example_chat))"
    by (simp add: handleSendMessage_def Let_def i ns c trim_padded_Hello truthy_def
          Hello_nonempty send_succeeds_def truthy_opt_def send_finally_def)
  show ?thesis
    using b s a send_guard [of blank_chat "js ''p1''" send_succeeds]
      send_guard [of busy_chat "js ''p1''" send_succeeds]
      send_guard [of example_chat "js ''p1''" send_succeeds]
    by blast
qed

section \<open>Selecting a session\<close>

text \<open>
  C10.  Selecting the session that is already current returns the state as it was with
  no effect (no navigation, no fetch); hence selecting a session a second time, right
  after selecting it, changes nothing and adds no effect, however the fetches settle.
\<close>

theorem select_session_idempotent:
  "(currentSessionId st = Some sid \<longrightarrow> handleSelectSession pid sid r st = (st, []))
   \<and> handleSelectSession pid sid r2 (fst (handleSelectSession pid sid r1 st))
       = (fst (handleSelectSession pid sid r1 st), [])"
  by (auto simp: handleSelectSession_def fetchSession_def Let_def split: sum.splits)

theorem select_session_idempotent_witness:
  "currentSessionId example_chat = Some (js ''s1'')
   \<and> handleSelectSession (js ''p1'') (js ''s1'') (Inr None) example_chat = (example_chat, [])
   \<and> currentSessionId (fst (handleSelectSession (js ''p1'') (js ''s2'') (Inr None) example_chat))
       = Some (js ''s2'')
   \<and> handleSelectSession (js ''p1'') (js ''s2'') (Inl example_error)
        (fst (handleSelectSession (js ''p1'') (js ''s2'') (Inr None) example_chat))
       = (fst (handleSelectSession (js ''p1'') (js ''s2'') (Inr None) example_chat), [])"
proof -
  have c: "currentSessionId example_chat = Some (js ''s1'')"
    by (simp add: example_chat_def)
  have d: "js ''s2'' \<noteq> js ''s1''"
    by (simp add: js_def)
  have e: "currentSessionId
      (fst (handleSelectSession (js ''p1'') (js ''s2'') (Inr None) example_chat))
       = Some (js ''s2'')"
    by (simp add: handleSelectSession_def fetchSession_def Let_def c d)
  show ?thesis
    using c e
      select_session_idempotent [of example_chat "js ''s1''" "js ''p1''" "Inr None"]
      select_session_idempotent
        [of example_chat "js ''s2''" "js ''p1''" "Inr None" "Inl example_error" "Inr None"]
    by simp
qed

section \<open>Toggling a prompt\<close>

lemma toggle_requests:
  "filter is_api (snd (handleTogglePrompt p result st)) =
     [Api (promptAPI_update (prompt_id p) (toggle_payload p))]"
  by (simp add: handleTogglePrompt_def is_api_def split: sum.splits)

lemma toggle_prompts:
  "prompts (fst (handleTogglePrompt p result st)) =
     (case result of
        Inr d \<Rightarrow>
          map (\<lambda>q. if prompt_id q = prompt_id p then q\<lparr>is_active := \<not> is_active q\<rparr> else q)
            (prompts st)
      | Inl e \<Rightarrow> prompts st)"
  by (simp add: handleTogglePrompt_def split: sum.splits)

lemma toggle_rest:
  "(fst (handleTogglePrompt p result st))\<lparr>prompts := prompts st\<rparr> = st"
  by (simp add: handleTogglePrompt_def split: sum.splits)

text \<open>
  C4.  Toggling a prompt issues one request, a PUT to the prompt's update route whose
  payload is the object with the single field \<open>is_active\<close>, set to the negation of the
  prompt's \<open>is_active\<close>.  The resulting prompt list has the old length; every entry
  with another id is the old entry; every entry equals the old entry in all fields
  other than \<open>is_active\<close>; when the request succeeds the toggled prompt's entry is the
  prompt with \<open>is_active\<close> negated; and nothing else of the page's state changes.
\<close>

theorem toggle_prompt_frame:
  "filter is_api (snd (handleTogglePrompt p result st)) =
     [Api \<lparr>verb = PUT, url = js ''/projects/prompts/'' @ prompt_id p,
           data = JsonBody (JObject [(js ''is_active'', JBool (\<not> is_active p))]),
           headers = default_headers\<rparr>]
   \<and> length (prompts (fst (handleTogglePrompt p result st))) = length (prompts st)
   \<and> (\<forall>i < length (prompts st).
        (prompt_id (prompts st ! i) \<noteq> prompt_id p \<longrightarrow>
           prompts (fst (handleTogglePrompt p result st)) ! i = prompts st ! i)
        \<and> (prompts (fst (handleTogglePrompt p result st)) ! i)
             \<lparr>is_active := is_active (prompts st ! i)\<rparr> = prompts st ! i
        \<and> (prompts st ! i = p \<and> (\<exists>d. result = Inr d) \<longrightarrow>
             prompts (fst (handleTogglePrompt p result st)) ! i
               = p\<lparr>is_active := \<not> is_active p\<rparr>))
   \<and> (fst (handleTogglePrompt p result st))\<lparr>prompts := prompts st\<rparr> = st"
proof -
  have 1: "filter is_api (snd (handleTogglePrompt p result st)) =
     [Api \<lparr>verb = PUT, url = js ''/projects/prompts/'' @ prompt_id p,
           data = JsonBody (JObject [(js ''is_active'', JBool (\<not> is_active p))]),
           headers = default_headers\<rparr>]"
    by (simp add: toggle_requests promptAPI_update_def api_put_def toggle_payload_def)
  have 2: "length (prompts (fst (handleTogglePrompt p result st))) = length (prompts st)"
    by (simp add: toggle_prompts split: sum.splits)
  have 3: "\<forall>i < length (prompts st).
        (prompt_id (prompts st ! i) \<noteq> prompt_id p \<longrightarrow>
           prompts (fst (handleTogglePrompt p result st)) ! i = prompts st ! i)
        \<and> (prompts (fst (handleTogglePrompt p result st)) ! i)
             \<lparr>is_active := is_active (prompts st ! i)\<rparr> = prompts st ! i
        \<and> (prompts st ! i = p \<and> (\<exists>d. result = Inr d) \<longrightarrow>
             prompts (fst (handleTogglePrompt p result st)) ! i
               = p\<lparr>is_active := \<not> is_active p\<rparr>)"
    by (auto simp: toggle_prompts split: sum.splits)
  show ?thesis
    using 1 2 3 toggle_rest by blast
qed

theorem toggle_prompt_frame_witness:
  "(0::nat) < length (prompts example_detail)
   \<and> prompts example_detail ! 0 = greet_prompt
   \<and> prompts (fst (handleTogglePrompt greet_prompt (Inr greet_prompt) example_detail)) ! 0
       = greet_prompt\<lparr>is_active := False\<rparr>
   \<and> (1::nat) < length (prompts example_detail)
   \<and> prompt_id (prompts example_detail ! 1) \<noteq> prompt_id greet_prompt
   \<and> prompts (fst (handleTogglePrompt greet_prompt (Inr greet_prompt) example_detail)) ! 1
       = brief_prompt"
proof -
  have p: "prompts example_detail = [greet_prompt, brief_prompt]"
    by (simp add: example_detail_def)
  have a: "is_active greet_prompt"
    by (simp add: greet_prompt_def)
  have d: "prompt_id brief_prompt \<noteq> prompt_id greet_prompt"
    by (simp add: greet_prompt_def brief_prompt_def js_def)
  from toggle_prompt_frame [of greet_prompt "Inr greet_prompt" example_detail]
  have "\<forall>i < length (prompts example_detail).
        (prompt_id (prompts example_detail ! i) \<noteq> prompt_id greet_prompt \<longrightarrow>
           prompts (fst (handleTogglePrompt greet_prompt (Inr greet_prompt) example_detail)) ! i
             = prompts example_detail ! i)
        \<and> (prompts example_detail ! i = greet_prompt \<and> (\<exists>d. Inr greet_prompt = (Inr d :: api_error + prompt)) \<longrightarrow>
             prompts (fst (handleTogglePrompt greet_prompt (Inr greet_prompt) example_detail)) ! i
               = greet_prompt\<lparr>is_active := \<not> is_active greet_prompt\<rparr>)"
    by blast
  from this [rule_format, of 0] this [rule_format, of 1]
  show ?thesis
    using p a d by simp
qed

section \<open>Uploading a file\<close>

lemma first_file_None: "first_file fs = None \<longleftrightarrow> fs = None \<or> fs = Some []"
  by (simp add: first_file_def split: option.splits list.splits)

lemma first_file_Some: "first_file (Some (f # rest)) = Some f"
  by (simp add: first_file_def)

text \<open>
  C6.  When the change event carries no file (no file list, or an empty one) the handler
  returns the state as it was and has no effect: no request, the file list unchanged.
  When it carries a file, the handler issues exactly one request: a POST to the
  project's files route whose body is form data holding the first file under the field
  \<open>file\<close>, sent as \<open>multipart/form-data\<close>; and when that request succeeds, the returned
  file record is put in front of the file list.
\<close>

theorem file_upload:
  "(fs = None \<or> fs = Some [] \<longrightarrow> handleFileUpload pid fs result mounted st = (st, []))
   \<and> (\<forall>f rest. fs = Some (f # rest) \<longrightarrow>
        filter is_api (snd (handleFileUpload pid fs result mounted st)) =
          [Api \<lparr>verb = POST, url = js ''/projects/'' @ pid @ js ''/files'',
                data = FormData [(js ''file'', f)],
                headers = [js ''Content-Type'' \<mapsto> js ''multipart/form-data'']\<rparr>]
        \<and> (\<forall>d. result = Inr d \<longrightarrow>
              files (fst (handleFileUpload pid fs result mounted st)) = d # files st))"
proof -
  have 1: "fs = None \<or> fs = Some [] \<longrightarrow> handleFileUpload pid fs result mounted st = (st, [])"
    using first_file_None [of fs] by (auto simp: handleFileUpload_def)
  have 2: "\<forall>f rest. fs = Some (f # rest) \<longrightarrow>
        filter is_api (snd (handleFileUpload pid fs result mounted st)) =
          [Api \<lparr>verb = POST, url = js ''/projects/'' @ pid @ js ''/files'',
                data = FormData [(js ''file'', f)],
                headers = [js ''Content-Type'' \<mapsto> js ''multipart/form-data'']\<rparr>]
        \<and> (\<forall>d. result = Inr d \<longrightarrow>
              files (fst (handleFileUpload pid fs result mounted st)) = d # files st)"
    by (auto simp: handleFileUpload_def first_file_Some Let_def is_api_def fileAPI_upload_def
          api_post_def default_headers_def split: sum.splits)
  show ?thesis
    using 1 2 by blast
qed

theorem file_upload_witness:
  "handleFileUpload (js ''p1'') (Some []) (Inr notes_record) True example_detail
     = (example_detail, [])
   \<and> files (fst (handleFileUpload (js ''p1'') (Some [notes_file]) (Inr notes_record) True
        example_detail)) = [notes_record]
   \<and> filter is_api (snd (handleFileUpload (js ''p1'') (Some [notes_file]) (Inr notes_record)
        True example_detail)) =
       [Api \<lparr>verb = POST, url = js ''/projects/p1/files'',
             data = FormData [(js ''file'', notes_file)],
             headers = [js ''Content-Type'' \<mapsto> js ''multipart/form-data'']\<rparr>]"
proof -
  have f: "files example_detail = []"
    by (simp add: example_detail_def)
  have u: "js ''/projects/'' @ js ''p1'' @ js ''/files'' = js ''/projects/p1/files''"
    by (simp add: js_def)
  show ?thesis
    using file_upload [of "Some []" "js ''p1''" "Inr notes_record" True example_detail]
      file_upload [of "Some [notes_file]" "js ''p1''" "Inr notes_record" True example_detail]
    by (simp add: f u)
qed

section \<open>Deleting a project\<close>

lemma delete_question_includes:
  "js_includes delete_project_question (js ''All associated data will be lost'')"
proof -
  have "delete_project_question =
      js ''Are you sure you want to delete this project? ''
        @ js ''All associated data will be lost'' @ js ''.''"
    by (simp add: delete_project_question_def js_def)
  then show ?thesis
    unfolding js_includes_def by (intro exI)
qed

lemma delete_declined:
  "handleDeleteProject pid False result st =
     (st, [PreventDefault, StopPropagation, Confirm delete_project_question False])"
  by (simp add: handleDeleteProject_def)

lemma delete_effects:
  "snd (handleDeleteProject pid True result st) =
     [PreventDefault, StopPropagation, Confirm delete_project_question True,
      Api (projectAPI_delete pid)]
     @ (case result of Inr d \<Rightarrow> [] | Inl e \<Rightarrow> [ConsoleError (js ''Failed to delete project:'')])"
  by (simp add: handleDeleteProject_def split: sum.splits)

lemma delete_state:
  "fst (handleDeleteProject pid True result st) =
     (case result of
        Inr d \<Rightarrow> st\<lparr>projects := filter (\<lambda>p. project_id p \<noteq> pid) (projects st)\<rparr>
      | Inl e \<Rightarrow> st)"
  by (simp add: handleDeleteProject_def split: sum.splits)

text \<open>
  C7.  The question put to the user includes \<open>All associated data will be lost\<close>.
  Every request in a run's trace is the delete request for the given project, stands
  after the dialog in the trace, and the dialog was answered yes.  When the user
  declines, the state is returned as it was and the trace holds no request.  When the
  user accepts, the delete request is the only request, and if it succeeds the project
  list becomes the old list without the entries of the given id, all else unchanged.
\<close>

theorem delete_project_confirmed:
  "js_includes delete_project_question (js ''All associated data will be lost'')
   \<and> (\<forall>c. Api c \<in> set (snd (handleDeleteProject pid answer result st)) \<longrightarrow>
        answer \<and> c = projectAPI_delete pid
        \<and> (\<exists>after. snd (handleDeleteProject pid answer result st) =
               [PreventDefault, StopPropagation, Confirm delete_project_question True] @ after
             \<and> Api c \<in> set after))
   \<and> (\<not> answer \<longrightarrow>
        handleDeleteProject pid answer result st =
          (st, [PreventDefault, StopPropagation, Confirm delete_project_question False]))
   \<and> (answer \<longrightarrow>
        filter is_api (snd (handleDeleteProject pid answer result st))
          = [Api (projectAPI_delete pid)]
        \<and> (\<forall>d. result = Inr d \<longrightarrow>
              fst (handleDeleteProject pid answer result st) =
                st\<lparr>projects := filter (\<lambda>p. project_id p \<noteq> pid) (projects st)\<rparr>))"
proof (cases answer)
  case True
  have "\<forall>c. Api c \<in> set (snd (handleDeleteProject pid True result st)) \<longrightarrow>
        c = projectAPI_delete pid
        \<and> (\<exists>after. snd (handleDeleteProject pid True result st) =
               [PreventDefault, StopPropagation, Confirm delete_project_question True] @ after
             \<and> Api c \<in> set after)"
  proof (intro allI impI)
    fix c
    assume "Api c \<in> set (snd (handleDeleteProject pid True result st))"
    then have c: "c = projectAPI_delete pid"
      by (simp add: delete_effects split: sum.splits)
    define after where
      "after = Api (projectAPI_delete pid) #
         (case result of Inr d \<Rightarrow> [] | Inl e \<Rightarrow> [ConsoleError (js ''Failed to delete project:'')])"
    have "snd (handleDeleteProject pid True result st) =
        [PreventDefault, StopPropagation, Confirm delete_project_question True] @ after"
      by (simp add: delete_effects after_def)
    moreover have "Api c \<in> set after"
      by (simp add: c after_def)
    ultimately show "c = projectAPI_delete pid
        \<and> (\<exists>after. snd (handleDeleteProject pid True result st) =
               [PreventDefault, StopPropagation, Confirm delete_project_question True] @ after
             \<and> Api c \<in> set after)"
      using c by blast
  qed
  moreover have "filter is_api (snd (handleDeleteProject pid True result st))
          = [Api (projectAPI_delete pid)]"
    by (simp add: delete_effects is_api_def split: sum.splits)
  moreover have "\<forall>d. result = Inr d \<longrightarrow>
              fst (handleDeleteProject pid True result st) =
                st\<lparr>projects := filter (\<lambda>p. project_id p \<noteq> pid) (projects st)\<rparr>"
    by (simp add: delete_state)
  ultimately show ?thesis
    using True delete_question_includes by simp
next
  case False
  then show ?thesis
    using delete_question_includes by (simp add: delete_declined)
qed

theorem delete_project_confirmed_witness:
  "handleDeleteProject (js ''p1'') False (Inr ()) example_dashboard =
     (example_dashboard,
      [PreventDefault, StopPropagation, Confirm delete_project_question False])
   \<and> projects (fst (handleDeleteProject (js ''p1'') True (Inr ()) example_dashboard))
       = [faq_project]
   \<and> Api (projectAPI_delete (js ''p1''))
       \<in> set (snd (handleDeleteProject (js ''p1'') True (Inr ()) example_dashboard))
   \<and> filter is_api (snd (handleDeleteProject (js ''p1'') True (Inr ()) example_dashboard))
       = [Api (projectAPI_delete (js ''p1''))]"
proof -
  have p: "filter (\<lambda>p. project_id p \<noteq> js ''p1'') (projects example_dashboard) = [faq_project]"
    by (simp add: example_dashboard_def bot_project_def faq_project_def js_def)
  have a: "Api (projectAPI_delete (js ''p1''))
       \<in> set (snd (handleDeleteProject (js ''p1'') True (Inr ()) example_dashboard))"
    by (simp add: delete_effects)
  note declined =
    delete_project_confirmed [of "js ''p1''" False "Inr ()" example_dashboard,
      THEN conjunct2, THEN conjunct2, THEN conjunct1]
  note accepted =
    delete_project_confirmed [of "js ''p1''" True "Inr ()" example_dashboard,
      THEN conjunct2, THEN conjunct2, THEN conjunct2]
  have 1: "handleDeleteProject (js ''p1'') False (Inr ()) example_dashboard =
     (example_dashboard,
      [PreventDefault, StopPropagation, Confirm delete_project_question False])"
    using declined by simp
  have 2: "filter is_api (snd (handleDeleteProject (js ''p1'') True (Inr ()) example_dashboard))
       = [Api (projectAPI_delete (js ''p1''))]"
    and 3: "fst (handleDeleteProject (js ''p1'') True (Inr ()) example_dashboard) =
       example_dashboard\<lparr>projects :=
         filter (\<lambda>p. project_id p \<noteq> js ''p1'') (projects example_dashboard)\<rparr>"
    using accepted by simp_all
  show ?thesis
    using a 1 2 by (simp add: 3 p)
qed


section \<open>The route guards\<close>

text \<open>
  C8 (as amended).  For each of the four protected routes, when authentication has
  finished loading and no user is present, \<^verbatim>\<open>App\<close> renders a redirect to \<open>/login\<close>
  (so not the page).  For \<open>/login\<close> and \<open>/register\<close>, when authentication has finished
  loading and a user is present, it renders a redirect to \<open>/dashboard\<close>.  The two
  default routes, \<open>/\<close> and \<open>*\<close>, render a redirect to \<open>/dashboard\<close> whatever the
  authentication state; and while authentication is loading every guarded route renders
  the loading indicator.
\<close>

theorem route_guards:
  "(r \<in> {R_dashboard, R_project, R_project_chat, R_project_chat_session}
      \<and> \<not> auth_loading a \<and> user a = None \<longrightarrow> App a r = NavigateTo (js ''/login''))
   \<and> (r \<in> {R_login, R_register} \<and> \<not> auth_loading a \<and> user a \<noteq> None \<longrightarrow>
        App a r = NavigateTo (js ''/dashboard''))
   \<and> (r \<in> {R_root, R_any} \<longrightarrow> App a r = NavigateTo (js ''/dashboard''))
   \<and> (r \<notin> {R_root, R_any} \<and> auth_loading a \<longrightarrow> App a r = LoadingDots)"
  by (cases r) (simp_all add: ProtectedRoute_def PublicRoute_def)

theorem route_guards_witness:
  "App \<lparr>user = None, auth_loading = False\<rparr> R_project_chat = NavigateTo (js ''/login'')
   \<and> App \<lparr>user = Some ann, auth_loading = False\<rparr> R_login = NavigateTo (js ''/dashboard'')
   \<and> App \<lparr>user = None, auth_loading = False\<rparr> R_any = NavigateTo (js ''/dashboard'')
   \<and> App \<lparr>user = Some ann, auth_loading = True\<rparr> R_register = LoadingDots"
  using route_guards [of R_project_chat "\<lparr>user = None, auth_loading = False\<rparr>"]
    route_guards [of R_login "\<lparr>user = Some ann, auth_loading = False\<rparr>"]
    route_guards [of R_any "\<lparr>user = None, auth_loading = False\<rparr>"]
    route_guards [of R_register "\<lparr>user = Some ann, auth_loading = True\<rparr>"]
  by simp

theorem default_route_counterexample:
  "route_path R_root \<noteq> js ''/login'' \<and> route_path R_root \<noteq> js ''/register''
   \<and> App \<lparr>user = None, auth_loading = False\<rparr> R_root = NavigateTo (js ''/dashboard'')
   \<and> App \<lparr>user = None, auth_loading = False\<rparr> R_root \<noteq> NavigateTo (js ''/login'')
   \<and> user \<lparr>user = Some ann, auth_loading = True\<rparr> \<noteq> None
   \<and> App \<lparr>user = Some ann, auth_loading = True\<rparr> R_login = LoadingDots
   \<and> App \<lparr>user = Some ann, auth_loading = True\<rparr> R_login \<noteq> NavigateTo (js ''/dashboard'')"
  by (simp add: PublicRoute_def js_def)


section \<open>Registration\<close>

lemma submit_mismatch:
  "password st \<noteq> confirmPassword st \<Longrightarrow>
     handleSubmit result st = (st\<lparr>error := js ''Passwords do not match''\<rparr>, [PreventDefault])"
  by (simp add: handleSubmit_def)

lemma submit_short:
  "password st = confirmPassword st \<Longrightarrow> length (password st) < 6 \<Longrightarrow>
     handleSubmit result st =
       (st\<lparr>error := js ''Password must be at least 6 characters''\<rparr>, [PreventDefault])"
  by (simp add: handleSubmit_def)

lemma submit_call:
  "password st = confirmPassword st \<Longrightarrow> 6 \<le> length (password st) \<Longrightarrow>
     CallRegister (email st) (password st) (name st) \<in> set (snd (handleSubmit result st))"
  by (simp add: handleSubmit_def Let_def split: sum.splits)

text \<open>
  C9.  A submission calls \<^verbatim>\<open>register\<close> exactly when the password equals the
  confirmation and has at least six code units.  A submission that violates either
  condition has \<^verbatim>\<open>preventDefault\<close> as its only effect (no call, no request) and sets
  the error message: the mismatch message when the two differ, the length message
  otherwise.
\<close>

theorem register_precondition:
  "((\<exists>e p n. CallRegister e p n \<in> set (snd (handleSubmit result st))) \<longleftrightarrow>
      password st = confirmPassword st \<and> 6 \<le> length (password st))
   \<and> (password st \<noteq> confirmPassword st \<or> length (password st) < 6 \<longrightarrow>
        snd (handleSubmit result st) = [PreventDefault]
        \<and> error (fst (handleSubmit result st)) =
            (if password st \<noteq> confirmPassword st then js ''Passwords do not match''
             else js ''Password must be at least 6 characters'')
        \<and> error (fst (handleSubmit result st)) \<noteq> [])"
proof (cases "password st = confirmPassword st \<and> 6 \<le> length (password st)")
  case True
  then show ?thesis
    using submit_call [of st result] by auto
next
  case False
  then consider "password st \<noteq> confirmPassword st"
    | "password st = confirmPassword st" "length (password st) < 6"
    by force
  then show ?thesis
  proof cases
    case 1
    then show ?thesis
      by (simp add: submit_mismatch) (simp add: js_def)
  next
    case 2
    then show ?thesis
      by (simp add: submit_short) (simp add: js_def)
  qed
qed

theorem register_precondition_witness:
  "length (password short_form) < 6
   \<and> snd (handleSubmit (Inr ()) short_form) = [PreventDefault]
   \<and> error (fst (handleSubmit (Inr ()) short_form))
       = js ''Password must be at least 6 characters''
   \<and> password mismatch_form \<noteq> confirmPassword mismatch_form
   \<and> snd (handleSubmit (Inr ()) mismatch_form) = [PreventDefault]
   \<and> error (fst (handleSubmit (Inr ()) mismatch_form)) = js ''Passwords do not match''
   \<and> password good_form = confirmPassword good_form \<and> 6 \<le> length (password good_form)
   \<and> (\<exists>e p n. CallRegister e p n \<in> set (snd (handleSubmit (Inr ()) good_form)))"
proof -
  have s: "password short_form = confirmPassword short_form" "length (password short_form) < 6"
    by (simp_all add: short_form_def js_def)
  have m: "password mismatch_form \<noteq> confirmPassword mismatch_form"
    by (simp add: mismatch_form_def js_def)
  have g: "password good_form = confirmPassword good_form" "6 \<le> length (password good_form)"
    by (simp_all add: good_form_def js_def)
  show ?thesis
    using s m g register_precondition [of "Inr ()" short_form]
      register_precondition [of "Inr ()" mismatch_form]
      register_precondition [of "Inr ()" good_form]
    by simp
qed


end
